theory Spec2Isabelle
  imports Main "HOL-Library.Signed_Division"
begin

section \<open>Data model of kernel/proc.c\<close>

text \<open>
  The process states of xv6. The table \<open>proc[NPROC]\<close> is zero-initialised static storage,
  so a slot that was never allocated has state \<open>UNUSED\<close> and every counter zero.
\<close>

datatype procstate = UNUSED | USED | SLEEPING | RUNNABLE | RUNNING | ZOMBIE

text \<open>
  The scheduling-relevant fields of \<open>struct proc\<close>. The declaration (kernel/proc.h) is
  not among the sources; the counters are integers, so they are modelled as \<open>int\<close>, and
  the division of C, which truncates toward zero, is \<open>sdiv\<close>. A null channel is \<open>0\<close>.
\<close>

record proc =
  state :: procstate
  pid :: int
  killed :: int
  xstate :: int
  chan :: nat
  cpu_burst :: int
  cpu_burst_aprox :: int
  exe_time :: int
  put_timestamp :: int
  timeslice :: int

text \<open>
  \<open>struct sched_policy\<close>. A process handle (\<open>struct proc *\<close>) is the index of the process
  in the table. The list \<open>heap\<close> is the live prefix \<open>heap[0 .. heap_size)\<close> of the C array,
  so \<open>heap_size\<close> is its length; no function of the source reads a slot at or beyond
  \<open>heap_size\<close>. The coefficient \<open>a\<close> is the field \<open>coef_a\<close>.
\<close>

record sched_policy =
  heap :: "nat list"
  coef_a :: int
  algorithm :: int
  is_preemptive :: int

text \<open>
  The global state the scheduler touches: the process table \<open>proc\<close>, the policy record
  \<open>proc_sched\<close>, the tick counter \<open>ticks\<close>, the pid counter \<open>nextpid\<close>, and for every CPU
  the process it runs (\<open>c->proc\<close>, \<open>None\<close> for the null pointer).
\<close>

record kernel =
  proc :: "nat \<Rightarrow> proc"
  proc_sched :: sched_policy
  ticks :: int
  nextpid :: int
  cpus :: "nat \<Rightarrow> nat option"

abbreviation heap_size :: "kernel \<Rightarrow> nat" where
  "heap_size s \<equiv> length (heap (proc_sched s))"

definition unused_proc :: proc where
  "unused_proc = \<lparr>state = UNUSED, pid = 0, killed = 0, xstate = 0, chan = 0, cpu_burst = 0,
     cpu_burst_aprox = 0, exe_time = 0, put_timestamp = 0, timeslice = 0\<rparr>"

text \<open>The state at boot: line 14 of proc.c initialises the policy to
  \<open>{heap_size = 0, a = 50, algorithm = 0, is_preemptive = 0}\<close>.\<close>

definition boot :: kernel where
  "boot = \<lparr>proc = (\<lambda>_. unused_proc),
     proc_sched = \<lparr>heap = [], coef_a = 50, algorithm = 0, is_preemptive = 0\<rparr>,
     ticks = 0, nextpid = 1, cpus = (\<lambda>_. None)\<rparr>"

section \<open>The heap\<close>

definition swap :: "nat list \<Rightarrow> nat \<Rightarrow> nat \<Rightarrow> nat list" where
  "swap arr i j = arr[i := arr ! j, j := arr ! i]"

text \<open>The loop of \<open>heapify_up\<close>, from the comparison on.\<close>

function heapify_up_loop :: "(nat \<Rightarrow> proc) \<Rightarrow> int \<Rightarrow> nat list \<Rightarrow> nat \<Rightarrow> nat \<Rightarrow> nat list" where
  "heapify_up_loop pt algo arr cur parent =
     (if (algo = 0 \<and> cpu_burst_aprox (pt (arr ! cur)) < cpu_burst_aprox (pt (arr ! parent))) \<or>
         (algo \<noteq> 0 \<and> exe_time (pt (arr ! cur)) < exe_time (pt (arr ! parent)))
      then (if parent = 0 then swap arr cur parent
            else heapify_up_loop pt algo (swap arr cur parent) parent ((parent - 1) div 2))
      else arr)"
  by pat_completeness auto
termination
  by (relation "measure (\<lambda>(pt, algo, arr, cur, parent). parent)") auto

text \<open>
  \<open>heapify_up(arr, n, algo)\<close>: the first parent is \<open>curr / 2\<close>, the later ones
  \<open>(curr - 1) / 2\<close>. The source is called with \<open>n \<ge> 1\<close> only.
\<close>

definition heapify_up :: "(nat \<Rightarrow> proc) \<Rightarrow> nat list \<Rightarrow> nat \<Rightarrow> int \<Rightarrow> nat list" where
  "heapify_up pt arr n algo =
     (if n = 1 then arr else heapify_up_loop pt algo arr (n - 1) ((n - 1) div 2))"

text \<open>The loop of \<open>heapify_down_i\<close>; the children are recomputed from \<open>curr\<close> (here \<open>cur\<close>) at each round.\<close>

function heapify_down_loop :: "(nat \<Rightarrow> proc) \<Rightarrow> int \<Rightarrow> nat list \<Rightarrow> nat \<Rightarrow> nat \<Rightarrow> nat list" where
  "heapify_down_loop pt algo arr n cur =
     (if (algo = 0 \<and> cur * 2 + 1 < n \<and>
            cpu_burst_aprox (pt (arr ! cur)) > cpu_burst_aprox (pt (arr ! (cur * 2 + 1)))) \<or>
         (algo \<noteq> 0 \<and> cur * 2 + 1 < n \<and>
            exe_time (pt (arr ! cur)) > exe_time (pt (arr ! (cur * 2 + 1))))
      then heapify_down_loop pt algo (swap arr cur (cur * 2 + 1)) n (cur * 2 + 1)
      else if (algo = 0 \<and> cur * 2 + 2 < n \<and>
            cpu_burst_aprox (pt (arr ! cur)) > cpu_burst_aprox (pt (arr ! (cur * 2 + 2)))) \<or>
         (algo \<noteq> 0 \<and> cur * 2 + 2 < n \<and>
            cpu_burst_aprox (pt (arr ! cur)) > cpu_burst_aprox (pt (arr ! (cur * 2 + 2))))
      then heapify_down_loop pt algo (swap arr cur (cur * 2 + 2)) n (cur * 2 + 2)
      else arr)"
  by pat_completeness auto
termination
  by (relation "measure (\<lambda>(pt, algo, arr, n, cur). n - cur)") auto

definition heapify_down_i :: "(nat \<Rightarrow> proc) \<Rightarrow> nat list \<Rightarrow> nat \<Rightarrow> nat \<Rightarrow> int \<Rightarrow> nat list" where
  "heapify_down_i pt arr n i algo = (if n = 1 then arr else heapify_down_loop pt algo arr n i)"

definition heapify_down :: "(nat \<Rightarrow> proc) \<Rightarrow> nat list \<Rightarrow> nat \<Rightarrow> int \<Rightarrow> nat list" where
  "heapify_down pt arr n algo = heapify_down_i pt arr n 0 algo"

text \<open>
  \<open>rearrange_heap\<close>: \<open>i\<close> runs from \<open>n / 2 - 1\<close> down to \<open>0\<close>, that is over
  \<open>n div 2 - 1, ..., 0\<close>, and not at all when \<open>n < 2\<close>.
\<close>

definition rearrange_heap :: "(nat \<Rightarrow> proc) \<Rightarrow> nat list \<Rightarrow> nat \<Rightarrow> int \<Rightarrow> nat list" where
  "rearrange_heap pt arr n algo =
     foldl (\<lambda>acc i. heapify_down_i pt acc n i algo) arr (rev [0 ..< n div 2])"

section \<open>put, get and change\_sched\<close>

text \<open>
  \<open>put(p)\<close> for a non-null \<open>p\<close>; the two locks are not part of the state. The guard of
  the exponential averaging reads \<open>proc->state\<close>, the state of the first entry of the table.
\<close>

definition put :: "nat \<Rightarrow> kernel \<Rightarrow> kernel" where
  "put p s =
     (let sp = proc_sched s;
          p0 = proc s p;
          p1 = (if state (proc s 0) \<noteq> RUNNING
                then p0\<lparr>cpu_burst_aprox :=
                  (coef_a sp * cpu_burst p0 + (100 - coef_a sp) * cpu_burst_aprox p0) sdiv 100\<rparr>
                else p0);
          p2 = (if state p1 = RUNNING then p1\<lparr>exe_time := exe_time p1 + cpu_burst p1\<rparr>
                else p1\<lparr>exe_time := 0\<rparr>);
          p3 = p2\<lparr>put_timestamp := ticks s, state := RUNNABLE\<rparr>;
          pt = (proc s)(p := p3);
          arr = heap sp @ [p]
      in s\<lparr>proc := pt,
           proc_sched := sp\<lparr>heap := heapify_up pt arr (length arr) (algorithm sp)\<rparr>\<rparr>)"

text \<open>
  \<open>get()\<close>: \<open>None\<close> is the null pointer returned on an empty heap. Moving the last
  element to the root, clearing its slot and decrementing \<open>heap_size\<close> is the update of
  index 0 followed by \<open>butlast\<close>.
\<close>

definition get :: "kernel \<Rightarrow> nat option \<times> kernel" where
  "get s =
     (let sp = proc_sched s in
      if length (heap sp) = 0 then (None, s)
      else
        let ret = heap sp ! 0;
            pt = (proc s)(ret := (proc s ret)\<lparr>cpu_burst := 0\<rparr>);
            arr = butlast ((heap sp)[0 := heap sp ! (length (heap sp) - 1)]);
            arr' = heapify_down pt arr (length arr) (algorithm sp);
            pt' = (if algorithm sp = 1
                   then (let cfs_timeslice = (ticks s - put_timestamp (pt ret)) sdiv (int (length arr') + 1)
                         in pt(ret := (pt ret)\<lparr>timeslice :=
                              (if cfs_timeslice = 0 then cfs_timeslice + 1 else cfs_timeslice)\<rparr>))
                   else pt)
        in (Some ret, s\<lparr>proc := pt', proc_sched := sp\<lparr>heap := arr'\<rparr>\<rparr>))"

text \<open>\<open>change_sched(algo, is_preemptive, a)\<close>: the status and the state after the call.\<close>

definition change_sched :: "int \<Rightarrow> int \<Rightarrow> int \<Rightarrow> kernel \<Rightarrow> int \<times> kernel" where
  "change_sched algo is_pre a s =
     (if algo < 0 \<or> algo > 1 \<or> is_pre < 0 then (- 2, s)
      else if algo = 0 \<and> (a < 0 \<or> a > 100) then (- 3, s)
      else (0, s\<lparr>proc_sched := (proc_sched s)\<lparr>algorithm := algo, is_preemptive := is_pre, coef_a := a,
                   heap := rearrange_heap (proc s) (heap (proc_sched s)) (heap_size s) algo\<rparr>\<rparr>))"

section \<open>Allocation and the state transitions\<close>

text \<open>
  The number of table entries \<open>NPROC\<close> (kernel/param.h) is not among the sources; it is
  the parameter \<open>nproc\<close> of the functions that scan the table. Memory, page tables, files
  and the trap frame are left out; an allocation that can fail is a boolean argument.
\<close>

definition freeproc :: "nat \<Rightarrow> kernel \<Rightarrow> kernel" where
  "freeproc p s = s\<lparr>proc := (proc s)(p := (proc s p)\<lparr>pid := 0, chan := 0, killed := 0, xstate := 0,
     state := UNUSED, cpu_burst_aprox := 0, cpu_burst := 0, timeslice := 0, put_timestamp := 0,
     exe_time := 0\<rparr>)\<rparr>"

text \<open>\<open>allocproc()\<close>: the first \<open>UNUSED\<close> entry; \<open>mem_ok\<close> says whether both allocations succeed.\<close>

definition allocproc :: "nat \<Rightarrow> bool \<Rightarrow> kernel \<Rightarrow> nat option \<times> kernel" where
  "allocproc nproc mem_ok s =
     (case find (\<lambda>p. state (proc s p) = UNUSED) [0 ..< nproc] of
        None \<Rightarrow> (None, s)
      | Some p \<Rightarrow>
          let s1 = s\<lparr>proc := (proc s)(p := (proc s p)\<lparr>pid := nextpid s, state := USED,
                       cpu_burst_aprox := 0, cpu_burst := 0, timeslice := 0, put_timestamp := 0,
                       exe_time := 0\<rparr>),
                     nextpid := nextpid s + 1\<rparr>
          in if mem_ok then (Some p, s1) else (None, freeproc p s1))"

text \<open>\<open>userinit()\<close> enqueues the first process with \<open>put\<close>. It does not test the result of
  \<open>allocproc\<close>, which finds a free entry at boot.\<close>

definition userinit :: "nat \<Rightarrow> kernel \<Rightarrow> kernel" where
  "userinit nproc s = (case allocproc nproc True s of (None, s1) \<Rightarrow> s1 | (Some p, s1) \<Rightarrow> put p s1)"

text \<open>\<open>fork()\<close>: \<open>-1\<close> when the allocation or the copy of the user memory fails, else the
  pid of the child, which is enqueued with \<open>put\<close>.\<close>

definition fork :: "nat \<Rightarrow> bool \<Rightarrow> bool \<Rightarrow> kernel \<Rightarrow> int \<times> kernel" where
  "fork nproc mem_ok copy_ok s =
     (case allocproc nproc mem_ok s of
        (None, s1) \<Rightarrow> (- 1, s1)
      | (Some np, s1) \<Rightarrow>
          if \<not> copy_ok then (- 1, freeproc np s1)
          else (pid (proc s1 np), put np s1))"

text \<open>
  One round of \<open>scheduler()\<close> on CPU \<open>c\<close>, up to the switch into the process: \<open>get\<close>, then,
  with the lock of the process taken, a process that is \<open>RUNNABLE\<close> becomes \<open>RUNNING\<close> and
  the CPU's current process (\<open>scheduler_run\<close>).
\<close>

definition scheduler_run :: "nat \<Rightarrow> nat \<Rightarrow> kernel \<Rightarrow> kernel" where
  "scheduler_run c p s =
     (if state (proc s p) = RUNNABLE
      then s\<lparr>proc := (proc s)(p := (proc s p)\<lparr>state := RUNNING\<rparr>), cpus := (cpus s)(c := Some p)\<rparr>
      else s)"

definition scheduler_dispatch :: "nat \<Rightarrow> kernel \<Rightarrow> kernel" where
  "scheduler_dispatch c s =
     (case get s of (None, s1) \<Rightarrow> s1 | (Some p, s1) \<Rightarrow> scheduler_run c p s1)"

text \<open>
  The rest of that round, which runs when the process switches back with \<open>sched()\<close>:
  a current process that is \<open>RUNNABLE\<close> is enqueued with \<open>put\<close>, and \<open>c->proc\<close> is cleared.
\<close>

definition scheduler_return :: "nat \<Rightarrow> kernel \<Rightarrow> kernel" where
  "scheduler_return c s =
     (let s1 = (case cpus s c of
                  None \<Rightarrow> s
                | Some p \<Rightarrow> if state (proc s p) = RUNNABLE then put p s else s)
      in s1\<lparr>cpus := (cpus s1)(c := None)\<rparr>)"

text \<open>
  \<open>yield()\<close>, \<open>sleep(chan, lk)\<close> and \<open>exit(status)\<close> of the process that CPU \<open>c\<close> runs
  (\<open>myproc()\<close>), each from taking \<open>p->lock\<close> to the release of that lock by the scheduler:
  the lock is held across \<open>sched()\<close>, so the part of the process and the rest of the
  scheduler's round are one step.
\<close>

definition yield :: "nat \<Rightarrow> kernel \<Rightarrow> kernel" where
  "yield c s = (case cpus s c of None \<Rightarrow> s | Some p \<Rightarrow> scheduler_return c (put p s))"

definition sleep :: "nat \<Rightarrow> nat \<Rightarrow> kernel \<Rightarrow> kernel" where
  "sleep c ch s =
     (case cpus s c of
        None \<Rightarrow> s
      | Some p \<Rightarrow> scheduler_return c (s\<lparr>proc := (proc s)(p := (proc s p)\<lparr>chan := ch, state := SLEEPING\<rparr>)\<rparr>))"

text \<open>What \<open>sleep\<close> does once the process runs again: it clears the channel.\<close>

definition sleep_resume :: "nat \<Rightarrow> kernel \<Rightarrow> kernel" where
  "sleep_resume c s =
     (case cpus s c of None \<Rightarrow> s | Some p \<Rightarrow> s\<lparr>proc := (proc s)(p := (proc s p)\<lparr>chan := 0\<rparr>)\<rparr>)"

definition exit :: "nat \<Rightarrow> int \<Rightarrow> kernel \<Rightarrow> kernel" where
  "exit c status s =
     (case cpus s c of
        None \<Rightarrow> s
      | Some p \<Rightarrow> scheduler_return c (s\<lparr>proc := (proc s)(p := (proc s p)\<lparr>xstate := status, state := ZOMBIE\<rparr>)\<rparr>))"

text \<open>\<open>wakeup(chan)\<close> called on CPU \<open>c\<close>: every sleeper on the channel but the caller is \<open>put\<close>.\<close>

definition wakeup :: "nat \<Rightarrow> nat \<Rightarrow> nat \<Rightarrow> kernel \<Rightarrow> kernel" where
  "wakeup nproc c ch s =
     foldl (\<lambda>s1 p. if cpus s1 c \<noteq> Some p \<and> state (proc s1 p) = SLEEPING \<and> chan (proc s1 p) = ch
                    then put p s1 else s1) s [0 ..< nproc]"

text \<open>\<open>kill(pid)\<close>: the first entry with that pid is marked, and woken if it sleeps.\<close>

definition kill :: "nat \<Rightarrow> int \<Rightarrow> kernel \<Rightarrow> int \<times> kernel" where
  "kill nproc k s =
     (case find (\<lambda>p. pid (proc s p) = k) [0 ..< nproc] of
        None \<Rightarrow> (- 1, s)
      | Some p \<Rightarrow>
          let s1 = s\<lparr>proc := (proc s)(p := (proc s p)\<lparr>killed := 1\<rparr>)\<rparr>
          in (0, if state (proc s1 p) = SLEEPING then put p s1 else s1))"

text \<open>The branch of \<open>wait\<close> that frees a child found in state \<open>ZOMBIE\<close>.\<close>

definition wait_reap :: "nat \<Rightarrow> kernel \<Rightarrow> kernel" where
  "wait_reap np s = (if state (proc s np) = ZOMBIE then freeproc np s else s)"

text \<open>\<open>timer_routine(p)\<close> on CPU \<open>c\<close>, whose current process is \<open>p\<close>.\<close>

definition timer_routine :: "nat \<Rightarrow> nat \<Rightarrow> kernel \<Rightarrow> kernel" where
  "timer_routine c p s =
     (let s1 = s\<lparr>proc := (proc s)(p := (proc s p)\<lparr>cpu_burst := cpu_burst (proc s p) + 1\<rparr>)\<rparr>
      in if (timeslice (proc s1 p) \<noteq> 0 \<and> cpu_burst (proc s1 p) = timeslice (proc s1 p)) \<or>
            (algorithm (proc_sched s1) = 0 \<and> is_preemptive (proc_sched s1) = 1)
         then yield c s1 else s1)"

text \<open>
  Modelled from the spec: the timer interrupt handler that advances \<open>ticks\<close> (kernel/trap.c)
  is not among the sources; the spec has a monotonic \<open>global_ticks\<close> counter, one unit per tick.
\<close>

definition clock_tick :: "kernel \<Rightarrow> kernel" where
  "clock_tick s = s\<lparr>ticks := ticks s + 1\<rparr>"

section \<open>Reachable states\<close>

text \<open>
  The states the kernel reaches from boot. A step is what one CPU does while it holds the
  lock of a process (or, for \<open>get\<close> and \<open>change_sched\<close>, the lock of the policy), with any
  argument: \<open>allocproc\<close>; the \<open>put\<close> of a new process (\<open>userinit\<close>, \<open>fork\<close>) or of a sleeper
  (one round of \<open>wakeup\<close>); \<open>freeproc\<close> of a new process (the failure path of \<open>fork\<close>);
  \<open>get\<close>; the locked part of the scheduler's round; the timer routine, for the current
  process of a CPU; \<open>yield\<close>, \<open>sleep\<close> and \<open>exit\<close>; \<open>kill\<close>; the freeing of a zombie by
  \<open>wait\<close>; \<open>change_sched\<close>; and a tick of the clock. The functions above that are
  sequences of such steps (\<open>userinit\<close>, \<open>fork\<close>, \<open>scheduler_dispatch\<close>, \<open>wakeup\<close>) stay
  within the reachable states, as shown below.
\<close>

inductive reachable :: "nat \<Rightarrow> kernel \<Rightarrow> bool" for nproc :: nat where
  r_boot: "reachable nproc boot"
| r_tick: "reachable nproc s \<Longrightarrow> reachable nproc (clock_tick s)"
| r_allocproc: "reachable nproc s \<Longrightarrow> reachable nproc (snd (allocproc nproc mem_ok s))"
| r_put: "reachable nproc s \<Longrightarrow> state (proc s p) = USED \<or> state (proc s p) = SLEEPING \<Longrightarrow>
          reachable nproc (put p s)"
| r_free: "reachable nproc s \<Longrightarrow> state (proc s p) = USED \<Longrightarrow> reachable nproc (freeproc p s)"
| r_get: "reachable nproc s \<Longrightarrow> reachable nproc (snd (get s))"
| r_run: "reachable nproc s \<Longrightarrow> reachable nproc (scheduler_run c p s)"
| r_timer: "reachable nproc s \<Longrightarrow> cpus s c = Some p \<Longrightarrow> reachable nproc (timer_routine c p s)"
| r_yield: "reachable nproc s \<Longrightarrow> reachable nproc (yield c s)"
| r_sleep: "reachable nproc s \<Longrightarrow> reachable nproc (sleep c ch s)"
| r_resume: "reachable nproc s \<Longrightarrow> reachable nproc (sleep_resume c s)"
| r_exit: "reachable nproc s \<Longrightarrow> reachable nproc (exit c status s)"
| r_kill: "reachable nproc s \<Longrightarrow> reachable nproc (snd (kill nproc k s))"
| r_wait: "reachable nproc s \<Longrightarrow> reachable nproc (wait_reap np s)"
| r_change_sched: "reachable nproc s \<Longrightarrow> reachable nproc (snd (change_sched algo is_pre a s))"

section \<open>The properties of the specification\<close>

text \<open>The key of the heap order: \<open>cpu_burst_aprox\<close> under algorithm 0, \<open>exe_time\<close> under 1.\<close>

definition key :: "int \<Rightarrow> proc \<Rightarrow> int" where
  "key algo q = (if algo = 0 then cpu_burst_aprox q else exe_time q)"

text \<open>The min-heap property of \<open>arr[0 .. n)\<close>: the key of an element is at most the key of
  each child it has (the children of \<open>i\<close> are \<open>2i + 1\<close> and \<open>2i + 2\<close>, when below \<open>n\<close>).\<close>

definition is_min_heap :: "(nat \<Rightarrow> proc) \<Rightarrow> int \<Rightarrow> nat list \<Rightarrow> nat \<Rightarrow> bool" where
  "is_min_heap pt algo arr n =
     list_all (\<lambda>i. (n \<le> 2 * i + 1 \<or> key algo (pt (arr ! i)) \<le> key algo (pt (arr ! (2 * i + 1)))) \<and>
                    (n \<le> 2 * i + 2 \<or> key algo (pt (arr ! i)) \<le> key algo (pt (arr ! (2 * i + 2)))))
       [0 ..< n]"

text \<open>The constraints on the policy fields, as the specification states them.\<close>

definition policy_fields_ok :: "sched_policy \<Rightarrow> bool" where
  "policy_fields_ok sp =
     (0 \<le> coef_a sp \<and> coef_a sp \<le> 100 \<and> algorithm sp \<in> {0, 1} \<and> is_preemptive sp \<in> {0, 1})"

text \<open>What the validation of \<open>change_sched\<close> ensures.\<close>

definition policy_fields_checked :: "sched_policy \<Rightarrow> bool" where
  "policy_fields_checked sp =
     (algorithm sp \<in> {0, 1} \<and> 0 \<le> is_preemptive sp \<and>
      (algorithm sp = 0 \<longrightarrow> 0 \<le> coef_a sp \<and> coef_a sp \<le> 100))"

text \<open>Two invariants of the reachable states, used below.\<close>

definition exe_time_zero :: "kernel \<Rightarrow> bool" where
  "exe_time_zero s = (\<forall>p. exe_time (proc s p) = 0)"

definition timestamps_past :: "kernel \<Rightarrow> bool" where
  "timestamps_past s = (0 \<le> ticks s \<and> (\<forall>p. put_timestamp (proc s p) \<le> ticks s))"

section \<open>Concrete states\<close>

text \<open>A \<open>RUNNABLE\<close> process with the given two keys.\<close>

definition runnable_proc :: "int \<Rightarrow> int \<Rightarrow> proc" where
  "runnable_proc ap ex = unused_proc\<lparr>state := RUNNABLE, cpu_burst_aprox := ap, exe_time := ex\<rparr>"

text \<open>Three processes whose \<open>exe_time\<close> is 5, 7 and 1 and whose \<open>cpu_burst_aprox\<close> is 0.\<close>

definition sink_table :: "nat \<Rightarrow> proc" where
  "sink_table = (\<lambda>_. unused_proc)(0 := runnable_proc 0 5, 1 := runnable_proc 0 7, 2 := runnable_proc 0 1)"

text \<open>
  The first process runs on CPU 0; its child ran on CPU 1 for four ticks and sleeps on
  channel 7.
\<close>

definition sleeper_state :: kernel where
  "sleeper_state =
     sleep 1 7 (timer_routine 1 1 (timer_routine 1 1 (timer_routine 1 1 (timer_routine 1 1
       (scheduler_dispatch 1 (snd (fork 4 True True (scheduler_dispatch 0 (userinit 4 boot)))))))))"

text \<open>
  Shortest-job-first with four queued processes whose estimates 1, 5, 2, 6 form a
  min-heap, and a sleeper (entry 4) with burst 3 and estimate 3.
\<close>

definition four_queued_state :: kernel where
  "four_queued_state =
     boot\<lparr>proc := (\<lambda>_. unused_proc)(0 := runnable_proc 1 0, 1 := runnable_proc 5 0,
              2 := runnable_proc 2 0, 3 := runnable_proc 6 0,
              4 := unused_proc\<lparr>state := SLEEPING, cpu_burst := 3, cpu_burst_aprox := 3\<rparr>),
          proc_sched := (proc_sched boot)\<lparr>heap := [0, 1, 2, 3]\<rparr>\<rparr>"

text \<open>
  The fair policy (algorithm 1) with three queued processes, all with \<open>exe_time\<close> 0,
  whose estimates are 5, 3 and 1.
\<close>

definition three_queued_cfs_state :: kernel where
  "three_queued_cfs_state =
     boot\<lparr>proc := (\<lambda>_. unused_proc)(0 := runnable_proc 5 0, 1 := runnable_proc 3 0,
              2 := runnable_proc 1 0),
          proc_sched := (proc_sched boot)\<lparr>heap := [0, 1, 2], algorithm := 1\<rparr>\<rparr>"

text \<open>
  The first process is dispatched under the fair policy one tick after boot, uses its
  slice, and the policy is then switched back to shortest-job-first.
\<close>

definition cfs_then_sjf_state :: kernel where
  "cfs_then_sjf_state =
     snd (change_sched 0 0 50
       (timer_routine 0 0 (scheduler_dispatch 0 (clock_tick (snd (change_sched 1 0 50 (userinit 4 boot)))))))"

text \<open>Two queued processes under the fair policy, five ticks after boot.\<close>

definition two_queued_cfs_state :: kernel where
  "two_queued_cfs_state =
     clock_tick (clock_tick (clock_tick (clock_tick (clock_tick
       (snd (change_sched 1 0 50 (snd (fork 4 True True (userinit 4 boot)))))))))"

text \<open>
  The first process runs for a tick, yields, is dispatched again and sleeps on channel 7;
  then a second process is allocated.
\<close>

definition ran_then_slept_state :: kernel where
  "ran_then_slept_state =
     snd (allocproc 4 True
       (sleep 0 7 (scheduler_dispatch 0 (yield 0 (timer_routine 0 0 (scheduler_dispatch 0 (userinit 4 boot)))))))"

section \<open>Status codes of change\_sched\<close>

text \<open>
  C4: \<open>change_sched\<close> returns \<open>-2\<close> if \<open>algo\<close> is not 0 or 1 or \<open>is_preemptive\<close> is negative,
  otherwise \<open>-3\<close> if \<open>algo = 0\<close> and \<open>a\<close> is outside \<open>[0, 100]\<close>, otherwise \<open>0\<close>; so
  \<open>change_sched(2, 0, 50) = -2\<close>, \<open>change_sched(0, 0, 101) = -3\<close> and
  \<open>change_sched(0, -1, 50) = -2\<close>.
\<close>

theorem change_sched_status:
  "fst (change_sched algo is_pre a s) =
     (if algo \<notin> {0, 1} \<or> is_pre < 0 then - 2
      else if algo = 0 \<and> \<not> (0 \<le> a \<and> a \<le> 100) then - 3 else 0)
   \<and> fst (change_sched 2 0 50 s) = - 2
   \<and> fst (change_sched 0 0 101 s) = - 3
   \<and> fst (change_sched 0 (- 1) 50 s) = - 2"
  by (auto simp: change_sched_def)

theorem change_sched_status_witness:
  "fst (change_sched 1 3 500 boot) = 0 \<and> fst (change_sched 0 0 (- 1) boot) = - 3
   \<and> fst (change_sched (- 1) 0 0 boot) = - 2 \<and> fst (change_sched 0 1 100 boot) = 0"
  using change_sched_status [of 1 3 500 boot] change_sched_status [of 0 0 "- 1" boot]
    change_sched_status [of "- 1" 0 0 boot] change_sched_status [of 0 1 100 boot]
  by simp

text \<open>
  C10: when \<open>change_sched\<close> returns \<open>-2\<close> or \<open>-3\<close>, the whole state, and with it the
  algorithm, the preemption flag, the coefficient, the heap and its size, is unchanged.
\<close>

theorem change_sched_rejected_unchanged:
  "fst (change_sched algo is_pre a s) = - 2 \<or> fst (change_sched algo is_pre a s) = - 3
   \<Longrightarrow> snd (change_sched algo is_pre a s) = s"
  by (auto simp: change_sched_def split: if_splits)

theorem change_sched_rejected_unchanged_witness:
  "fst (change_sched 2 0 50 boot) = - 2 \<and> snd (change_sched 2 0 50 boot) = boot"
  using change_sched_rejected_unchanged [of 2 0 50 boot]
  by (simp add: change_sched_def)

section \<open>The composite functions stay within the reachable states\<close>

lemma allocproc_state:
  "allocproc nproc ok s = (Some p, s1) \<Longrightarrow> state (proc s1 p) = USED"
  by (auto simp: allocproc_def Let_def split: option.splits if_splits)

lemma reachable_userinit: "reachable nproc s \<Longrightarrow> reachable nproc (userinit nproc s)"
proof -
  assume r: "reachable nproc s"
  obtain q s1 where g: "allocproc nproc True s = (q, s1)" by (cases "allocproc nproc True s")
  with r_allocproc [OF r, of True] have r1: "reachable nproc s1" by simp
  show ?thesis
  proof (cases q)
    case None
    with g r1 show ?thesis by (simp add: userinit_def)
  next
    case (Some p)
    with g have "state (proc s1 p) = USED" by (simp add: allocproc_state)
    with r1 have "reachable nproc (put p s1)" by (simp add: r_put)
    with g Some show ?thesis by (simp add: userinit_def)
  qed
qed

lemma reachable_fork: "reachable nproc s \<Longrightarrow> reachable nproc (snd (fork nproc mem_ok copy_ok s))"
proof -
  assume r: "reachable nproc s"
  obtain q s1 where g: "allocproc nproc mem_ok s = (q, s1)" by (cases "allocproc nproc mem_ok s")
  with r_allocproc [OF r, of mem_ok] have r1: "reachable nproc s1" by simp
  show ?thesis
  proof (cases q)
    case None
    with g r1 show ?thesis by (simp add: fork_def)
  next
    case (Some p)
    with g have u: "state (proc s1 p) = USED" by (simp add: allocproc_state)
    with r1 have "reachable nproc (put p s1)" and "reachable nproc (freeproc p s1)"
      by (simp_all add: r_put r_free)
    with g Some show ?thesis by (simp add: fork_def)
  qed
qed

lemma reachable_dispatch: "reachable nproc s \<Longrightarrow> reachable nproc (scheduler_dispatch c s)"
proof -
  assume r: "reachable nproc s"
  obtain q s1 where g: "get s = (q, s1)" by (cases "get s")
  with r_get [OF r] have r1: "reachable nproc s1" by simp
  show ?thesis
  proof (cases q)
    case None
    with g r1 show ?thesis by (simp add: scheduler_dispatch_def)
  next
    case (Some p)
    with g r_run [OF r1, of c p] show ?thesis by (simp add: scheduler_dispatch_def)
  qed
qed

lemma reachable_wakeup_list:
  "reachable nproc s \<Longrightarrow>
   reachable nproc (foldl (\<lambda>s1 p. if cpus s1 c \<noteq> Some p \<and> state (proc s1 p) = SLEEPING \<and> chan (proc s1 p) = ch
                    then put p s1 else s1) s ps)"
proof (induction ps arbitrary: s)
  case Nil
  then show ?case by simp
next
  case (Cons q ps)
  show ?case
  proof (cases "cpus s c \<noteq> Some q \<and> state (proc s q) = SLEEPING \<and> chan (proc s q) = ch")
    case True
    then have "reachable nproc (put q s)" using Cons.prems by (simp add: r_put)
    from Cons.IH [OF this] True show ?thesis by simp
  next
    case False
    with Cons.IH [OF Cons.prems] show ?thesis by auto
  qed
qed

lemma reachable_wakeup: "reachable nproc s \<Longrightarrow> reachable nproc (wakeup nproc c ch s)"
  unfolding wakeup_def by (rule reachable_wakeup_list)

section \<open>What put and get change\<close>

lemma put_proc_other: "q \<noteq> p \<Longrightarrow> proc (put p s) q = proc s q"
  by (simp add: put_def Let_def)

lemma put_exe_time:
  "exe_time (proc (put p s) p) =
     (if state (proc s p) = RUNNING then exe_time (proc s p) + cpu_burst (proc s p) else 0)"
  by (simp add: put_def Let_def)

lemma put_state: "state (proc (put p s) p) = RUNNABLE"
  by (simp add: put_def Let_def)

lemma put_put_timestamp: "put_timestamp (proc (put p s) p) = ticks s"
  by (simp add: put_def Let_def)

lemma put_frame:
  "ticks (put p s) = ticks s" "cpus (put p s) = cpus s" "nextpid (put p s) = nextpid s"
  "coef_a (proc_sched (put p s)) = coef_a (proc_sched s)"
  "algorithm (proc_sched (put p s)) = algorithm (proc_sched s)"
  "is_preemptive (proc_sched (put p s)) = is_preemptive (proc_sched s)"
  by (simp_all add: put_def Let_def)

lemma get_frame:
  "ticks (snd (get s)) = ticks s" "cpus (snd (get s)) = cpus s"
  "coef_a (proc_sched (snd (get s))) = coef_a (proc_sched s)"
  "algorithm (proc_sched (snd (get s))) = algorithm (proc_sched s)"
  "is_preemptive (proc_sched (snd (get s))) = is_preemptive (proc_sched s)"
  by (simp_all add: get_def Let_def)

lemma get_proc_fields:
  "exe_time (proc (snd (get s)) q) = exe_time (proc s q)"
  "put_timestamp (proc (snd (get s)) q) = put_timestamp (proc s q)"
  "state (proc (snd (get s)) q) = state (proc s q)"
  by (simp_all add: get_def Let_def)

section \<open>The execution time is zero in every reachable state\<close>

text \<open>
  \<open>put\<close> adds the burst to \<open>exe_time\<close> only for a \<open>RUNNING\<close> process, that is in \<open>yield\<close>;
  there the scheduler, finding the process \<open>RUNNABLE\<close>, calls \<open>put\<close> a second time, which
  resets \<open>exe_time\<close>.
\<close>

lemma ez_put: "exe_time_zero s \<Longrightarrow> state (proc s p) \<noteq> RUNNING \<Longrightarrow> exe_time_zero (put p s)"
  unfolding exe_time_zero_def
  by (metis put_exe_time put_proc_other)

lemma ez_put_put: "exe_time_zero s \<Longrightarrow> exe_time_zero (put p (put p s))"
  unfolding exe_time_zero_def
proof
  fix q assume a: "\<forall>p. exe_time (proc s p) = 0"
  show "exe_time (proc (put p (put p s)) q) = 0"
  proof (cases "q = p")
    case True
    then show ?thesis by (simp add: put_exe_time put_state)
  next
    case False
    then show ?thesis using a by (simp add: put_proc_other)
  qed
qed

lemma ez_cpus_upd: "exe_time_zero (s\<lparr>cpus := f\<rparr>) = exe_time_zero s"
  by (simp add: exe_time_zero_def)

lemma ez_scheduler_return: "exe_time_zero s \<Longrightarrow> exe_time_zero (scheduler_return c s)"
  by (auto simp: scheduler_return_def Let_def ez_cpus_upd ez_put split: option.splits)

lemma ez_yield: "exe_time_zero s \<Longrightarrow> exe_time_zero (yield c s)"
  by (auto simp: yield_def scheduler_return_def Let_def ez_cpus_upd put_frame put_state ez_put_put
      split: option.splits)

lemma ez_state_upd:
  "exe_time_zero s \<Longrightarrow> exe_time q = exe_time (proc s p) \<Longrightarrow> exe_time_zero (s\<lparr>proc := (proc s)(p := q)\<rparr>)"
  by (simp add: exe_time_zero_def)

lemma ez_sleep: "exe_time_zero s \<Longrightarrow> exe_time_zero (sleep c ch s)"
  by (auto simp: sleep_def intro!: ez_scheduler_return ez_state_upd split: option.splits)

lemma ez_exit: "exe_time_zero s \<Longrightarrow> exe_time_zero (exit c st s)"
  by (auto simp: exit_def intro!: ez_scheduler_return ez_state_upd split: option.splits)

lemma ez_resume: "exe_time_zero s \<Longrightarrow> exe_time_zero (sleep_resume c s)"
  by (auto simp: sleep_resume_def intro!: ez_state_upd split: option.splits)

lemma ez_get: "exe_time_zero s \<Longrightarrow> exe_time_zero (snd (get s))"
  by (simp add: exe_time_zero_def get_proc_fields)

lemma ez_run: "exe_time_zero s \<Longrightarrow> exe_time_zero (scheduler_run c p s)"
  by (simp add: scheduler_run_def exe_time_zero_def)

lemma ez_timer: "exe_time_zero s \<Longrightarrow> exe_time_zero (timer_routine c p s)"
  by (auto simp: timer_routine_def Let_def intro!: ez_yield ez_state_upd)

lemma ez_freeproc: "exe_time_zero s \<Longrightarrow> exe_time_zero (freeproc p s)"
  by (simp add: exe_time_zero_def freeproc_def)

lemma ez_allocproc: "exe_time_zero s \<Longrightarrow> exe_time_zero (snd (allocproc nproc ok s))"
  by (auto simp: allocproc_def Let_def exe_time_zero_def freeproc_def split: option.splits)

lemma ez_kill: "exe_time_zero s \<Longrightarrow> exe_time_zero (snd (kill nproc k s))"
  by (auto simp: kill_def Let_def intro!: ez_put ez_state_upd split: option.splits)

lemma ez_wait: "exe_time_zero s \<Longrightarrow> exe_time_zero (wait_reap np s)"
  by (simp add: wait_reap_def ez_freeproc)

lemma ez_change_sched: "exe_time_zero s \<Longrightarrow> exe_time_zero (snd (change_sched algo ip a s))"
  by (simp add: change_sched_def exe_time_zero_def)

lemma ez_tick: "exe_time_zero s \<Longrightarrow> exe_time_zero (clock_tick s)"
  by (simp add: clock_tick_def exe_time_zero_def)

lemma ez_boot: "exe_time_zero boot"
  by (simp add: exe_time_zero_def boot_def unused_proc_def)

lemma reachable_exe_time_zero: "reachable nproc s \<Longrightarrow> exe_time_zero s"
  by (induction rule: reachable.induct)
    (auto simp: ez_boot ez_tick ez_allocproc ez_put ez_freeproc ez_get ez_run ez_timer ez_yield
      ez_sleep ez_resume ez_exit ez_kill ez_wait ez_change_sched)

section \<open>No enqueue time lies in the future\<close>

lemma tp_put: "timestamps_past s \<Longrightarrow> timestamps_past (put p s)"
  unfolding timestamps_past_def
  by (metis order_refl put_frame(1) put_proc_other put_put_timestamp)

lemma tp_cpus_upd: "timestamps_past (s\<lparr>cpus := f\<rparr>) = timestamps_past s"
  by (simp add: timestamps_past_def)

lemma tp_proc_upd:
  "timestamps_past s \<Longrightarrow> put_timestamp q = put_timestamp (proc s p) \<or> put_timestamp q = 0 \<Longrightarrow>
   timestamps_past (s\<lparr>proc := (proc s)(p := q)\<rparr>)"
  by (auto simp: timestamps_past_def)

lemma tp_scheduler_return: "timestamps_past s \<Longrightarrow> timestamps_past (scheduler_return c s)"
  by (auto simp: scheduler_return_def Let_def tp_cpus_upd tp_put split: option.splits)

lemma tp_yield: "timestamps_past s \<Longrightarrow> timestamps_past (yield c s)"
  by (auto simp: yield_def intro!: tp_scheduler_return tp_put split: option.splits)

lemma tp_sleep: "timestamps_past s \<Longrightarrow> timestamps_past (sleep c ch s)"
  by (auto simp: sleep_def intro!: tp_scheduler_return tp_proc_upd split: option.splits)

lemma tp_exit: "timestamps_past s \<Longrightarrow> timestamps_past (exit c st s)"
  by (auto simp: exit_def intro!: tp_scheduler_return tp_proc_upd split: option.splits)

lemma tp_resume: "timestamps_past s \<Longrightarrow> timestamps_past (sleep_resume c s)"
  by (auto simp: sleep_resume_def intro!: tp_proc_upd split: option.splits)

lemma tp_get: "timestamps_past s \<Longrightarrow> timestamps_past (snd (get s))"
  by (simp add: timestamps_past_def get_proc_fields get_frame)

lemma tp_run: "timestamps_past s \<Longrightarrow> timestamps_past (scheduler_run c p s)"
  by (simp add: scheduler_run_def timestamps_past_def)

lemma tp_timer: "timestamps_past s \<Longrightarrow> timestamps_past (timer_routine c p s)"
  by (auto simp: timer_routine_def Let_def intro!: tp_yield tp_proc_upd)

lemma tp_freeproc: "timestamps_past s \<Longrightarrow> timestamps_past (freeproc p s)"
  by (simp add: timestamps_past_def freeproc_def)

lemma tp_allocproc: "timestamps_past s \<Longrightarrow> timestamps_past (snd (allocproc nproc ok s))"
  by (auto simp: allocproc_def Let_def timestamps_past_def freeproc_def split: option.splits)

lemma tp_kill: "timestamps_past s \<Longrightarrow> timestamps_past (snd (kill nproc k s))"
  by (auto simp: kill_def Let_def intro!: tp_put tp_proc_upd split: option.splits)

lemma tp_wait: "timestamps_past s \<Longrightarrow> timestamps_past (wait_reap np s)"
  by (simp add: wait_reap_def tp_freeproc)

lemma tp_change_sched: "timestamps_past s \<Longrightarrow> timestamps_past (snd (change_sched algo ip a s))"
  by (simp add: change_sched_def timestamps_past_def)

lemma tp_tick: "timestamps_past s \<Longrightarrow> timestamps_past (clock_tick s)"
  by (auto simp: clock_tick_def timestamps_past_def intro: order_trans)

lemma tp_boot: "timestamps_past boot"
  by (simp add: timestamps_past_def boot_def unused_proc_def)

lemma reachable_timestamps_past: "reachable nproc s \<Longrightarrow> timestamps_past s"
  by (induction rule: reachable.induct)
    (simp_all add: tp_boot tp_tick tp_allocproc tp_put tp_freeproc tp_get tp_run tp_timer tp_yield
      tp_sleep tp_resume tp_exit tp_kill tp_wait tp_change_sched)

lemma sdiv_nonneg: "0 \<le> k \<Longrightarrow> 0 \<le> (k::int) sdiv (int n + 1)"
  by (simp add: signed_divide_int_def sgn_if pos_imp_zdiv_nonneg_iff)

section \<open>The policy fields in every reachable state\<close>

lemma pc_put: "policy_fields_checked (proc_sched (put p s)) = policy_fields_checked (proc_sched s)"
  by (simp add: policy_fields_checked_def put_frame)

lemma pc_get: "policy_fields_checked (proc_sched (snd (get s))) = policy_fields_checked (proc_sched s)"
  by (simp add: policy_fields_checked_def get_frame)

lemma pc_scheduler_return:
  "policy_fields_checked (proc_sched (scheduler_return c s)) = policy_fields_checked (proc_sched s)"
  by (auto simp: scheduler_return_def Let_def pc_put split: option.splits)

lemma pc_yield: "policy_fields_checked (proc_sched (yield c s)) = policy_fields_checked (proc_sched s)"
  by (auto simp: yield_def pc_scheduler_return pc_put split: option.splits)

lemma pc_sleep: "policy_fields_checked (proc_sched (sleep c ch s)) = policy_fields_checked (proc_sched s)"
  by (auto simp: sleep_def pc_scheduler_return split: option.splits)

lemma pc_exit: "policy_fields_checked (proc_sched (exit c st s)) = policy_fields_checked (proc_sched s)"
  by (auto simp: exit_def pc_scheduler_return split: option.splits)

lemma pc_resume: "policy_fields_checked (proc_sched (sleep_resume c s)) = policy_fields_checked (proc_sched s)"
  by (auto simp: sleep_resume_def split: option.splits)

lemma pc_run:
  "policy_fields_checked (proc_sched (scheduler_run c p s)) = policy_fields_checked (proc_sched s)"
  by (simp add: scheduler_run_def)

lemma pc_timer:
  "policy_fields_checked (proc_sched (timer_routine c p s)) = policy_fields_checked (proc_sched s)"
  by (auto simp: timer_routine_def Let_def pc_yield)

lemma proc_sched_allocproc: "proc_sched (snd (allocproc nproc ok s)) = proc_sched s"
  by (auto simp: allocproc_def Let_def freeproc_def split: option.splits)

lemma pc_kill:
  "policy_fields_checked (proc_sched (snd (kill nproc k s))) = policy_fields_checked (proc_sched s)"
  by (auto simp: kill_def Let_def pc_put split: option.splits)

lemma pc_free: "policy_fields_checked (proc_sched (freeproc p s)) = policy_fields_checked (proc_sched s)"
  by (simp add: freeproc_def)

lemma pc_wait: "policy_fields_checked (proc_sched (wait_reap np s)) = policy_fields_checked (proc_sched s)"
  by (simp add: wait_reap_def freeproc_def)

lemma pc_change_sched:
  "policy_fields_checked (proc_sched s) \<Longrightarrow>
   policy_fields_checked (proc_sched (snd (change_sched algo ip a s)))"
  by (auto simp: change_sched_def policy_fields_checked_def)

lemma reachable_policy_checked: "reachable nproc s \<Longrightarrow> policy_fields_checked (proc_sched s)"
proof (induction rule: reachable.induct)
  case r_boot
  show ?case by (simp add: boot_def policy_fields_checked_def)
next
  case (r_tick s)
  then show ?case by (simp add: clock_tick_def)
next
  case (r_change_sched s algo is_pre a)
  from r_change_sched.IH show ?case by (rule pc_change_sched)
qed (simp_all add: proc_sched_allocproc pc_put pc_free pc_get pc_run pc_timer pc_yield pc_sleep
      pc_resume pc_exit pc_kill pc_wait)

section \<open>Sinking an element: heapify\_down\_i\<close>

text \<open>
  C1: \<open>heapify_down_i\<close> is to sink the element at \<open>i\<close> by comparing it with its left and
  then its right child on the key of the algorithm, on \<open>exe_time\<close> when the algorithm is 1.
  The source compares the right child on \<open>cpu_burst_aprox\<close> under both algorithms: with
  algorithm 1 and the \<open>exe_time\<close> values 5 (root), 7 (left) and 1 (right), all estimates
  being 0, the root is above its right child and the array is returned as it was.
\<close>

theorem heapify_down_i_right_child_key:
  "exe_time (sink_table 0) = 5 \<and> exe_time (sink_table 1) = 7 \<and> exe_time (sink_table 2) = 1 \<and>
   heapify_down_i sink_table [0, 1, 2] 3 0 1 = [0, 1, 2]"
  by code_simp

section \<open>The smoothed estimate in put\<close>

text \<open>
  What the source computes: the estimate of \<open>p\<close> is updated when the first entry of the
  process table is not \<open>RUNNING\<close>, whatever the state of \<open>p\<close>.
\<close>

lemma put_cpu_burst_aprox:
  "cpu_burst_aprox (proc (put p s) p) =
     (if state (proc s 0) \<noteq> RUNNING
      then (coef_a (proc_sched s) * cpu_burst (proc s p) +
            (100 - coef_a (proc_sched s)) * cpu_burst_aprox (proc s p)) sdiv 100
      else cpu_burst_aprox (proc s p))"
  by (simp add: put_def Let_def)

lemma sleeper_state_reachable: "reachable 4 sleeper_state"
proof -
  let ?s = "scheduler_dispatch 1 (snd (fork 4 True True (scheduler_dispatch 0 (userinit 4 boot))))"
  have r: "reachable 4 ?s"
    by (intro reachable_dispatch reachable_fork reachable_userinit r_boot)
  have c1: "cpus ?s 1 = Some 1" by code_simp
  have c2: "cpus (timer_routine 1 1 ?s) 1 = Some 1" by code_simp
  have c3: "cpus (timer_routine 1 1 (timer_routine 1 1 ?s)) 1 = Some 1" by code_simp
  have c4: "cpus (timer_routine 1 1 (timer_routine 1 1 (timer_routine 1 1 ?s))) 1 = Some 1" by code_simp
  show ?thesis unfolding sleeper_state_def
    by (intro r_sleep r_timer r c1 c2 c3 c4)
qed

text \<open>
  C2: after \<open>put(p)\<close> of a process that is not \<open>RUNNING\<close>, the estimate is to be
  \<open>(a * cpu_burst + (100 - a) * cpu_burst_aprox) / 100\<close>, whatever the states of the other
  processes. In the reachable state \<open>sleeper_state\<close> the sleeping process 1 has burst 4
  and estimate 0 and \<open>a\<close> is 50, so the estimate is to become 2; entry 0 of the table is
  \<open>RUNNING\<close>, and \<open>put\<close> leaves the estimate at 0.
\<close>

theorem put_skips_smoothing_of_sleeper:
  "reachable 4 sleeper_state \<and>
   state (proc sleeper_state 1) = SLEEPING \<and> state (proc sleeper_state 0) = RUNNING \<and>
   coef_a (proc_sched sleeper_state) = 50 \<and>
   cpu_burst (proc sleeper_state 1) = 4 \<and> cpu_burst_aprox (proc sleeper_state 1) = 0 \<and>
   (50 * 4 + (100 - 50) * 0) sdiv 100 = (2 :: int) \<and>
   cpu_burst_aprox (proc (put 1 sleeper_state) 1) = 0"
proof -
  have "state (proc sleeper_state 1) = SLEEPING \<and> state (proc sleeper_state 0) = RUNNING \<and>
   coef_a (proc_sched sleeper_state) = 50 \<and>
   cpu_burst (proc sleeper_state 1) = 4 \<and> cpu_burst_aprox (proc sleeper_state 1) = 0 \<and>
   (50 * 4 + (100 - 50) * 0) sdiv 100 = (2 :: int) \<and>
   cpu_burst_aprox (proc (put 1 sleeper_state) 1) = 0"
    by code_simp
  with sleeper_state_reachable show ?thesis by simp
qed

section \<open>The heap order after put\<close>

text \<open>
  C3: when the first \<open>n - 1\<close> elements are a min-heap, the array of size \<open>n\<close> is to be a
  min-heap after \<open>put\<close> has appended at index \<open>n - 1\<close> and called \<open>heapify_up(n)\<close>. With
  four queued estimates 1, 5, 2, 6 and a fifth process whose estimate after \<open>put\<close> is 3,
  the element appended at index 4 is compared with index 2 (\<open>curr / 2\<close>) and stays below
  its parent at index 1, whose key is 5.
\<close>

theorem put_breaks_min_heap:
  "algorithm (proc_sched four_queued_state) = 0 \<and>
   is_min_heap (proc four_queued_state) 0 (heap (proc_sched four_queued_state)) 4 \<and>
   heap (proc_sched (put 4 four_queued_state)) = [0, 1, 2, 3, 4] \<and>
   key 0 (proc (put 4 four_queued_state) 4) = 3 \<and> key 0 (proc (put 4 four_queued_state) 1) = 5 \<and>
   \<not> is_min_heap (proc (put 4 four_queued_state)) 0 (heap (proc_sched (put 4 four_queued_state))) 5"
  by code_simp

section \<open>The heap order after change\_sched\<close>

text \<open>
  C5: after a call of \<open>change_sched\<close> that returns 0 the heap is to be a min-heap under
  the new key. Three processes queued under algorithm 1 (a min-heap on \<open>exe_time\<close>, all 0)
  have the estimates 5, 3 and 1; \<open>change_sched(0, 0, 50)\<close> returns 0, \<open>heapify_down_i\<close>
  swaps the root with its left child without looking at the smaller right child, and the
  heap it leaves has the estimates 3, 5, 1.
\<close>

theorem change_sched_leaves_heap_unordered:
  "is_min_heap (proc three_queued_cfs_state) 1 (heap (proc_sched three_queued_cfs_state)) 3 \<and>
   fst (change_sched 0 0 50 three_queued_cfs_state) = 0 \<and>
   heap (proc_sched (snd (change_sched 0 0 50 three_queued_cfs_state))) = [1, 0, 2] \<and>
   \<not> is_min_heap (proc (snd (change_sched 0 0 50 three_queued_cfs_state))) 0
        (heap (proc_sched (snd (change_sched 0 0 50 three_queued_cfs_state)))) 3"
  by code_simp

section \<open>The policy fields\<close>

text \<open>
  C6, as stated: the constraints \<open>0 \<le> a \<le> 100\<close>, \<open>algorithm \<in> {0, 1}\<close> and
  \<open>is_preemptive \<in> {0, 1}\<close> are preserved by every \<open>change_sched\<close> that returns 0. They are
  not: \<open>change_sched(1, 2, 101)\<close> is accepted at boot.
\<close>

theorem change_sched_accepts_out_of_range:
  "fst (change_sched 1 2 101 boot) = 0 \<and>
   \<not> policy_fields_ok (proc_sched (snd (change_sched 1 2 101 boot)))"
  by (simp add: change_sched_def policy_fields_ok_def boot_def)

text \<open>
  C6, amended: the full constraints hold at boot; in every reachable state, and after
  every \<open>change_sched\<close> that returns 0, \<open>algorithm \<in> {0, 1}\<close>, \<open>is_preemptive \<ge> 0\<close>, and
  \<open>0 \<le> a \<le> 100\<close> when \<open>algorithm = 0\<close>.
\<close>

theorem policy_fields_after_change_sched:
  "policy_fields_ok (proc_sched boot) \<and>
   (reachable nproc s \<longrightarrow> policy_fields_checked (proc_sched s)) \<and>
   (fst (change_sched algo is_pre a s) = 0 \<longrightarrow>
      policy_fields_checked (proc_sched (snd (change_sched algo is_pre a s))))"
proof (intro conjI impI)
  show "policy_fields_ok (proc_sched boot)"
    by (simp add: boot_def policy_fields_ok_def)
  show "policy_fields_checked (proc_sched s)" if "reachable nproc s"
    using that by (rule reachable_policy_checked)
  show "policy_fields_checked (proc_sched (snd (change_sched algo is_pre a s)))"
    if "fst (change_sched algo is_pre a s) = 0"
    using that by (auto simp: change_sched_def policy_fields_checked_def split: if_splits)
qed

theorem policy_fields_after_change_sched_witness:
  "fst (change_sched 1 2 101 boot) = 0 \<and>
   policy_fields_checked (proc_sched (snd (change_sched 1 2 101 boot)))"
proof -
  have f: "fst (change_sched 1 2 101 boot) = 0" by (simp add: change_sched_def)
  with policy_fields_after_change_sched [of 4 boot 1 2 101] show ?thesis by simp
qed

section \<open>The time slice set by get\<close>

text \<open>
  C7: in a reachable state with \<open>algorithm = 1\<close>, \<open>get\<close> sets the time slice of the process
  it dequeues to \<open>max(1, (ticks - put_timestamp) / (heap_size + 1))\<close>, with the heap size
  after the removal.
\<close>

theorem get_cfs_timeslice:
  assumes "reachable nproc s" and "algorithm (proc_sched s) = 1" and "get s = (Some ret, s')"
  shows "timeslice (proc s' ret) =
           max 1 ((ticks s - put_timestamp (proc s ret)) sdiv (int (heap_size s') + 1))"
proof -
  have "put_timestamp (proc s ret) \<le> ticks s"
    using reachable_timestamps_past [OF assms(1)] by (simp add: timestamps_past_def)
  then have "0 \<le> (ticks s - put_timestamp (proc s ret)) sdiv (int (heap_size s') + 1)"
    by (simp add: sdiv_nonneg)
  moreover have "timeslice (proc s' ret) =
     (let q = (ticks s - put_timestamp (proc s ret)) sdiv (int (heap_size s') + 1)
      in if q = 0 then q + 1 else q)"
    using assms(2,3) by (auto simp: get_def Let_def split: if_splits)
  ultimately show ?thesis by (simp add: Let_def max_def)
qed

theorem get_cfs_timeslice_witness:
  "fst (get two_queued_cfs_state) = Some 0 \<and>
   timeslice (proc (snd (get two_queued_cfs_state)) 0) = max 1 ((5 - 0) sdiv (1 + 1))"
proof -
  have r: "reachable 4 two_queued_cfs_state"
    unfolding two_queued_cfs_state_def
    by (intro r_tick r_change_sched reachable_fork reachable_userinit r_boot)
  have a: "algorithm (proc_sched two_queued_cfs_state) = 1" by code_simp
  have f: "fst (get two_queued_cfs_state) = Some 0" by code_simp
  then have g: "get two_queued_cfs_state = (Some 0, snd (get two_queued_cfs_state))"
    by (simp add: prod_eq_iff)
  have v: "ticks two_queued_cfs_state = 5 \<and> put_timestamp (proc two_queued_cfs_state 0) = 0 \<and>
           heap_size (snd (get two_queued_cfs_state)) = 1"
    by code_simp
  from get_cfs_timeslice [OF r a g] f v show ?thesis by simp
qed

lemma cfs_then_sjf_state_reachable: "reachable 4 cfs_then_sjf_state"
proof -
  let ?s = "scheduler_dispatch 0 (clock_tick (snd (change_sched 1 0 50 (userinit 4 boot))))"
  have r: "reachable 4 ?s"
    by (intro reachable_dispatch r_tick r_change_sched reachable_userinit r_boot)
  have c: "cpus ?s 0 = Some 0" by code_simp
  show ?thesis unfolding cfs_then_sjf_state_def
    by (intro r_change_sched r_timer r c)
qed

text \<open>
  C8: the time slice of a process returned by \<open>get\<close> under algorithm 0 is to be 0. \<open>get\<close>
  writes the slice under algorithm 1 only and nothing resets it: a process dequeued
  under the fair policy keeps its slice 1 when \<open>get\<close> returns it after the switch to
  shortest-job-first.
\<close>

theorem get_sjf_keeps_cfs_timeslice:
  "reachable 4 cfs_then_sjf_state \<and> algorithm (proc_sched cfs_then_sjf_state) = 0 \<and>
   fst (get cfs_then_sjf_state) = Some 0 \<and> timeslice (proc (snd (get cfs_then_sjf_state)) 0) = 1"
proof -
  have "algorithm (proc_sched cfs_then_sjf_state) = 0 \<and>
   fst (get cfs_then_sjf_state) = Some 0 \<and> timeslice (proc (snd (get cfs_then_sjf_state)) 0) = 1"
    by code_simp
  with cfs_then_sjf_state_reachable show ?thesis by simp
qed

section \<open>The execution time of a process that does not run\<close>

text \<open>
  C9: in every reachable state, a process that is \<open>SLEEPING\<close>, \<open>ZOMBIE\<close> or freshly
  allocated (\<open>USED\<close>) has \<open>exe_time = 0\<close>. The field is zero when the process stops
  running: \<open>allocproc\<close> and \<open>freeproc\<close> clear it, and every \<open>put\<close> of a \<open>RUNNING\<close> process
  (in \<open>yield\<close>) is followed, under the same lock, by the scheduler's \<open>put\<close> of the then
  \<open>RUNNABLE\<close> process, which clears it; \<open>sleep\<close> and \<open>exit\<close> do not write it.
\<close>

theorem exe_time_zero_when_not_running:
  "reachable nproc s \<Longrightarrow> state (proc s p) \<in> {SLEEPING, ZOMBIE, USED} \<Longrightarrow> exe_time (proc s p) = 0"
  using reachable_exe_time_zero [of nproc s] by (simp add: exe_time_zero_def)

theorem exe_time_zero_when_not_running_witness:
  "state (proc ran_then_slept_state 0) = SLEEPING \<and> exe_time (proc ran_then_slept_state 0) = 0 \<and>
   state (proc ran_then_slept_state 1) = USED \<and> exe_time (proc ran_then_slept_state 1) = 0"
proof -
  let ?s = "scheduler_dispatch 0 (userinit 4 boot)"
  have r0: "reachable 4 ?s" by (intro reachable_dispatch reachable_userinit r_boot)
  have c: "cpus ?s 0 = Some 0" by code_simp
  have r: "reachable 4 ran_then_slept_state"
    unfolding ran_then_slept_state_def
    by (intro r_allocproc r_sleep reachable_dispatch r_yield r_timer r0 c)
  have st: "state (proc ran_then_slept_state 0) = SLEEPING \<and> state (proc ran_then_slept_state 1) = USED"
    by code_simp
  with exe_time_zero_when_not_running [OF r, of 0] exe_time_zero_when_not_running [OF r, of 1]
  show ?thesis by simp
qed

end
